theory Spec2Isabelle
  imports Main "HOL-Library.Sublist"
begin

section \<open>Secrets of landscaper components (pkg/landscaper/secrets.go)\<close>

subsection \<open>Data\<close>

text \<open>
  A Go \<^verbatim>\<open>string\<close> and a Go \<^verbatim>\<open>[]byte\<close> are both byte sequences; the conversion
  \<^verbatim>\<open>[]byte(s)\<close> keeps the bytes. Both are modelled as \<^typ>\<open>string\<close>, whose
  characters are bytes.
\<close>

type_synonym bytes = string

text \<open>\<^verbatim>\<open>type Secrets []string\<close> and \<^verbatim>\<open>type SecretValues map[string][]byte\<close>.\<close>

type_synonym Secrets = "string list"

type_synonym SecretValues = "string \<rightharpoonup> bytes"

text \<open>
  Go's \<^verbatim>\<open>error\<close> values. The Kubernetes client answers a failed request with a
  status error that carries a reason; \<^verbatim>\<open>errors.IsNotFound\<close> and
  \<^verbatim>\<open>errors.IsAlreadyExists\<close> read that reason, and every error that is no status
  error (a transport failure, an error made with \<^verbatim>\<open>fmt.Errorf\<close>) has the reason
  unknown. A \<^verbatim>\<open>nil\<close> error is \<^term>\<open>None\<close>.
\<close>

datatype StatusReason =
    StatusReasonUnknown
  | StatusReasonNotFound
  | StatusReasonAlreadyExists
  | StatusReasonForbidden
  | StatusReasonConflict
  | StatusReasonInternalError

datatype error = StatusError StatusReason string | errorString string

fun reasonForError :: "error option \<Rightarrow> StatusReason" where
  "reasonForError (Some (StatusError r m)) = r"
| "reasonForError (Some (errorString m)) = StatusReasonUnknown"
| "reasonForError None = StatusReasonUnknown"

definition IsNotFound :: "error option \<Rightarrow> bool" where
  "IsNotFound err = (reasonForError err = StatusReasonNotFound)"

definition IsAlreadyExists :: "error option \<Rightarrow> bool" where
  "IsAlreadyExists err = (reasonForError err = StatusReasonAlreadyExists)"

text \<open>
  A client method returns the Go pair of an object and an error; the model keeps the
  one that counts, \<^term>\<open>Inl\<close> the error. \<open>errorOf\<close> is the \<^verbatim>\<open>err\<close> of that pair.
\<close>

definition errorOf :: "error + 'a \<Rightarrow> error option" where
  "errorOf r = (case r of Inl e \<Rightarrow> Some e | Inr x \<Rightarrow> None)"

text \<open>The two API objects the provider builds and reads.\<close>

record ObjectMeta =
  meta_Name :: string

record api_Secret =
  secret_ObjectMeta :: ObjectMeta
  Data :: SecretValues

record api_Namespace =
  namespace_ObjectMeta :: ObjectMeta

subsection \<open>The client, the log and the world\<close>

text \<open>
  \<^verbatim>\<open>kubeClient internalversion.CoreInterface\<close> is a collaborator of the program: the
  provider only calls four of its methods. The client is a parameter of the model: a
  record of the four methods, each a function of the cluster state \<^typ>\<open>'s\<close> that
  answers an error or an object and the next state.
\<close>

record 's CoreInterface =
  Secrets_Get :: "string \<Rightarrow> string \<Rightarrow> 's \<Rightarrow> (error + api_Secret) \<times> 's"
  Secrets_Create :: "string \<Rightarrow> api_Secret \<Rightarrow> 's \<Rightarrow> (error + api_Secret) \<times> 's"
  Secrets_Delete :: "string \<Rightarrow> string \<Rightarrow> 's \<Rightarrow> error option \<times> 's"
  Namespaces_Create :: "api_Namespace \<Rightarrow> 's \<Rightarrow> (error + api_Namespace) \<times> 's"

text \<open>
  What the program does to the outside is kept in order in a trace: each log line of
  logrus (level, fields, message) and each request sent to a backend.
\<close>

datatype Level = DebugLevel | InfoLevel | WarnLevel | ErrorLevel

datatype field_value = FieldString string | FieldError error

type_synonym Fields = "(string \<times> field_value) list"

datatype request =
    GetSecret string string
  | CreateSecret string api_Secret
  | DeleteSecret string string
  | CreateNamespace api_Namespace
  | UpdateRelease string string

datatype event = Log Level Fields string | Request request

record 's world =
  trace :: "event list"
  cluster :: 's

definition logrus :: "Level \<Rightarrow> Fields \<Rightarrow> string \<Rightarrow> 's world \<Rightarrow> 's world" where
  "logrus lvl fs msg w = w\<lparr>trace := trace w @ [Log lvl fs msg]\<rparr>"

text \<open>A request: it is recorded, then the client's method runs on the cluster.\<close>

definition send :: "request \<Rightarrow> ('s \<Rightarrow> 'r \<times> 's) \<Rightarrow> 's world \<Rightarrow> 'r \<times> 's world" where
  "send rq m w =
     (case m (cluster w) of
        (r, s') \<Rightarrow> (r, w\<lparr>trace := trace w @ [Request rq], cluster := s'\<rparr>))"

text \<open>The requests of a trace, in order, without the log lines.\<close>

fun requests :: "event list \<Rightarrow> request list" where
  "requests [] = []"
| "requests (Log lvl fs msg # es) = requests es"
| "requests (Request rq # es) = rq # requests es"

definition cmpFields :: "string \<Rightarrow> string \<Rightarrow> Fields" where
  "cmpFields componentName namespace =
     [(''component'', FieldString componentName), (''namespace'', FieldString namespace)]"

definition errFields :: "string \<Rightarrow> string \<Rightarrow> error \<Rightarrow> Fields" where
  "errFields componentName namespace err =
     [(''component'', FieldString componentName), (''namespace'', FieldString namespace),
      (''error'', FieldError err)]"

subsection \<open>kubeSecretsProvider\<close>

text \<open>
  \<^verbatim>\<open>Read\<close> returns the Go pair \<^verbatim>\<open>(SecretValues, error)\<close>: the mapping is
  \<^term>\<open>None\<close> where the source returns \<^verbatim>\<open>nil\<close>, and \<^term>\<open>Some Map.empty\<close> where it
  returns the empty map it made. The loop copies every key of the secret object into
  the empty map; \<^verbatim>\<open>secretNames\<close> is not read.
\<close>

definition kubeSecretsProvider_Read ::
  "'s CoreInterface \<Rightarrow> string \<Rightarrow> string \<Rightarrow> string list \<Rightarrow> 's world
     \<Rightarrow> (SecretValues option \<times> error option) \<times> 's world" where
  "kubeSecretsProvider_Read kubeClient componentName namespace secretNames w =
     (let w1 = logrus DebugLevel (cmpFields componentName namespace)
                 ''Reading secrets for component'' w;
          secrets = (Map.empty :: SecretValues)
      in case send (GetSecret namespace componentName)
                (Secrets_Get kubeClient namespace componentName) w1 of
           (Inl err, w2) \<Rightarrow>
             if IsNotFound (Some err)
             then ((Some secrets, None),
                   logrus DebugLevel (cmpFields componentName namespace)
                     ''No secrets found for component'' w2)
             else ((None, Some err),
                   logrus ErrorLevel (errFields componentName namespace err)
                     ''Error when reading secrets for component'' w2)
         | (Inr secret, w2) \<Rightarrow>
             ((Some (secrets ++ Data secret), None),
              logrus DebugLevel (cmpFields componentName namespace)
                ''Successfully read secrets for component'' w2))"

text \<open>
  \<^verbatim>\<open>ensureNamespace\<close>: the creation is sent whatever the cluster holds; only an
  already-exists error is turned into \<^verbatim>\<open>nil\<close>.
\<close>

definition ensureNamespace ::
  "'s CoreInterface \<Rightarrow> string \<Rightarrow> 's world \<Rightarrow> error option \<times> 's world" where
  "ensureNamespace kubeClient namespace w =
     (let ns = \<lparr>namespace_ObjectMeta = \<lparr>meta_Name = namespace\<rparr>\<rparr>
      in case send (CreateNamespace ns) (Namespaces_Create kubeClient ns) w of
           (r, w1) \<Rightarrow>
             (let err = errorOf r
              in if IsAlreadyExists err then (None, w1) else (err, w1)))"

definition kubeSecretsProvider_Write ::
  "'s CoreInterface \<Rightarrow> string \<Rightarrow> string \<Rightarrow> SecretValues \<Rightarrow> 's world
     \<Rightarrow> error option \<times> 's world" where
  "kubeSecretsProvider_Write kubeClient componentName namespace secrets w =
     (let w1 = logrus InfoLevel (cmpFields componentName namespace)
                 ''Writing secrets for component'' w
      in case ensureNamespace kubeClient namespace w1 of
           (Some err, w2) \<Rightarrow>
             (Some err,
              logrus ErrorLevel (errFields componentName namespace err)
                ''Error when ensuring namespace exists for secret'' w2)
         | (None, w2) \<Rightarrow>
             (let secret = \<lparr>secret_ObjectMeta = \<lparr>meta_Name = componentName\<rparr>,
                            Data = secrets\<rparr>
              in case send (CreateSecret namespace secret)
                        (Secrets_Create kubeClient namespace secret) w2 of
                   (Inl err, w3) \<Rightarrow>
                     (Some err,
                      logrus ErrorLevel (errFields componentName namespace err)
                        ''Error when writing secrets for component'' w3)
                 | (Inr created, w3) \<Rightarrow>
                     (None,
                      logrus InfoLevel (cmpFields componentName namespace)
                        ''Successfully written secrets for component'' w3)))"

definition kubeSecretsProvider_Delete ::
  "'s CoreInterface \<Rightarrow> string \<Rightarrow> string \<Rightarrow> 's world \<Rightarrow> error option \<times> 's world" where
  "kubeSecretsProvider_Delete kubeClient componentName namespace w =
     (let w1 = logrus InfoLevel (cmpFields componentName namespace)
                 ''Deleting existing secrets for component'' w
      in case send (DeleteSecret namespace componentName)
                (Secrets_Delete kubeClient namespace componentName) w1 of
           (Some err, w2) \<Rightarrow>
             if IsNotFound (Some err)
             then (None,
                   logrus InfoLevel (cmpFields componentName namespace)
                     ''No secrets found for component'' w2)
             else (Some err,
                   logrus ErrorLevel (errFields componentName namespace err)
                     ''Error when deleting current secrets for component'' w2)
         | (None, w2) \<Rightarrow> (None, w2))"

subsection \<open>environmentSecrets\<close>

text \<open>
  \<^verbatim>\<open>os.Getenv\<close> answers the empty string for a variable that is not set. The
  environment is a parameter of the model.
\<close>

type_synonym environ = "string \<rightharpoonup> string"

definition Getenv :: "environ \<Rightarrow> string \<Rightarrow> string" where
  "Getenv env key = (case env key of None \<Rightarrow> [] | Some v \<Rightarrow> v)"

text \<open>
  \<^verbatim>\<open>strings.ToUpper\<close> belongs to Go's library: it maps the runes of the string to
  upper case by the Unicode tables (and rewrites bytes that are no valid UTF-8). It is
  not modelled; it is a parameter, \<open>ToUpper\<close>, of the functions that call it.
\<close>

text \<open>
  \<^verbatim>\<open>strings.Replace(s, old, new, -1)\<close> for a pattern \<^verbatim>\<open>old\<close> that is not empty, as
  the source calls it: every occurrence, left to right and without overlap, is
  replaced. (The empty pattern, which the source never passes, leaves \<open>s\<close> as it is
  here.)
\<close>

function Replace :: "string \<Rightarrow> string \<Rightarrow> string \<Rightarrow> string" where
  "Replace [] old new = []"
| "Replace (c # cs) old new =
     (if old \<noteq> [] \<and> prefix old (c # cs)
      then new @ Replace (drop (length old) (c # cs)) old new
      else c # Replace cs old new)"
  by pat_completeness auto
termination
  by (relation "measure (\<lambda>(s, old, new). length s)") auto

text \<open>
  \<^verbatim>\<open>environmentSecrets.Read\<close>: one pass of the loop body for a key, then the loop
  over \<^verbatim>\<open>secretNames\<close>. \<^verbatim>\<open>componentName\<close> and \<^verbatim>\<open>namespace\<close> are not read.
\<close>

definition readKey ::
  "(string \<Rightarrow> string) \<Rightarrow> environ \<Rightarrow> string \<Rightarrow> SecretValues \<times> 's world
     \<Rightarrow> SecretValues \<times> 's world" where
  "readKey ToUpper env key st =
     (case st of (secs, w) \<Rightarrow>
        (let envName = Replace (ToUpper key) ''-'' ''_'';
             secretValue = Getenv env envName;
             w1 = (if length secretValue = 0
                   then logrus WarnLevel
                          [(''secret'', FieldString key), (''envName'', FieldString envName)]
                          ''Secret not found in environment'' w
                   else w)
         in (secs(key \<mapsto> secretValue), w1)))"

definition environmentSecrets_Read ::
  "(string \<Rightarrow> string) \<Rightarrow> environ \<Rightarrow> string \<Rightarrow> string \<Rightarrow> string list \<Rightarrow> 's world
     \<Rightarrow> (SecretValues option \<times> error option) \<times> 's world" where
  "environmentSecrets_Read ToUpper env componentName namespace secretNames w =
     (case fold (readKey ToUpper env) secretNames (Map.empty, w) of
        (secs, w') \<Rightarrow> ((Some secs, None), w'))"

subsection \<open>Two clients\<close>

text \<open>
  An in-memory cluster that answers as the Kubernetes API does: reading or deleting an
  object that is not there is a not-found error, creating one whose name is taken is
  an already-exists error, and a secret is created only in a namespace that exists.
\<close>

record cluster_state =
  stored_namespaces :: "string set"
  stored_secrets :: "string \<times> string \<rightharpoonup> SecretValues"

definition memory_Secrets_Get ::
  "string \<Rightarrow> string \<Rightarrow> cluster_state \<Rightarrow> (error + api_Secret) \<times> cluster_state" where
  "memory_Secrets_Get namespace name st =
     (case stored_secrets st (namespace, name) of
        None \<Rightarrow> (Inl (StatusError StatusReasonNotFound ''secret not found''), st)
      | Some d \<Rightarrow> (Inr \<lparr>secret_ObjectMeta = \<lparr>meta_Name = name\<rparr>, Data = d\<rparr>, st))"

definition memory_Secrets_Create ::
  "string \<Rightarrow> api_Secret \<Rightarrow> cluster_state \<Rightarrow> (error + api_Secret) \<times> cluster_state" where
  "memory_Secrets_Create namespace secret st =
     (let name = meta_Name (secret_ObjectMeta secret)
      in if namespace \<notin> stored_namespaces st
         then (Inl (StatusError StatusReasonNotFound ''namespace not found''), st)
         else if stored_secrets st (namespace, name) \<noteq> None
         then (Inl (StatusError StatusReasonAlreadyExists ''secret already exists''), st)
         else (Inr secret,
               st\<lparr>stored_secrets := (stored_secrets st)((namespace, name) \<mapsto> Data secret)\<rparr>))"

definition memory_Secrets_Delete ::
  "string \<Rightarrow> string \<Rightarrow> cluster_state \<Rightarrow> error option \<times> cluster_state" where
  "memory_Secrets_Delete namespace name st =
     (if stored_secrets st (namespace, name) = None
      then (Some (StatusError StatusReasonNotFound ''secret not found''), st)
      else (None, st\<lparr>stored_secrets := (stored_secrets st)((namespace, name) := None)\<rparr>))"

definition memory_Namespaces_Create ::
  "api_Namespace \<Rightarrow> cluster_state \<Rightarrow> (error + api_Namespace) \<times> cluster_state" where
  "memory_Namespaces_Create ns st =
     (let name = meta_Name (namespace_ObjectMeta ns)
      in if name \<in> stored_namespaces st
         then (Inl (StatusError StatusReasonAlreadyExists ''namespace already exists''), st)
         else (Inr ns, st\<lparr>stored_namespaces := insert name (stored_namespaces st)\<rparr>))"

definition memory_client :: "cluster_state CoreInterface" where
  "memory_client =
     \<lparr>Secrets_Get = memory_Secrets_Get, Secrets_Create = memory_Secrets_Create,
      Secrets_Delete = memory_Secrets_Delete, Namespaces_Create = memory_Namespaces_Create\<rparr>"

text \<open>A client whose every request fails with the same error, as an unreachable or
  forbidding API server does.\<close>

definition failing_client :: "error \<Rightarrow> unit CoreInterface" where
  "failing_client err =
     \<lparr>Secrets_Get = (\<lambda>namespace name s. (Inl err, s)),
      Secrets_Create = (\<lambda>namespace secret s. (Inl err, s)),
      Secrets_Delete = (\<lambda>namespace name s. (Some err, s)),
      Namespaces_Create = (\<lambda>ns s. (Inl err, s))\<rparr>"

text \<open>
  What a client answered, without the wording of the message: nothing for success, the
  reason of the error otherwise.
\<close>

definition answer :: "error option \<Rightarrow> StatusReason option" where
  "answer err = (case err of None \<Rightarrow> None | Some e \<Rightarrow> Some (reasonForError (Some e)))"

text \<open>
  A client stores secrets as the Kubernetes API does when its state can be viewed as
  an in-memory cluster such that every deletion and creation answers as the in-memory
  cluster does on the view (the same success or the same reason of error) and leaves
  the state whose view the in-memory cluster reaches.
\<close>

definition conforms :: "'s CoreInterface \<Rightarrow> ('s \<Rightarrow> cluster_state) \<Rightarrow> bool" where
  "conforms cl view =
     (\<forall>s namespace name secret ns.
        answer (fst (Secrets_Delete cl namespace name s)) =
          answer (fst (memory_Secrets_Delete namespace name (view s)))
      \<and> view (snd (Secrets_Delete cl namespace name s)) =
          snd (memory_Secrets_Delete namespace name (view s))
      \<and> answer (errorOf (fst (Secrets_Create cl namespace secret s))) =
          answer (errorOf (fst (memory_Secrets_Create namespace secret (view s))))
      \<and> view (snd (Secrets_Create cl namespace secret s)) =
          snd (memory_Secrets_Create namespace secret (view s))
      \<and> answer (errorOf (fst (Namespaces_Create cl ns s))) =
          answer (errorOf (fst (memory_Namespaces_Create ns (view s))))
      \<and> view (snd (Namespaces_Create cl ns s)) =
          snd (memory_Namespaces_Create ns (view s)))"

definition empty_cluster :: cluster_state where
  "empty_cluster = \<lparr>stored_namespaces = {}, stored_secrets = Map.empty\<rparr>"

definition start :: "'s \<Rightarrow> 's world" where
  "start s = \<lparr>trace = [], cluster = s\<rparr>"

section \<open>The reconciliation core (executor)\<close>

text \<open>
  The executor and the component model are not among the source files at hand; only
  their tests (executor\_test.go) are. The definitions of this section are modelled
  from the specification, and say so.
\<close>

subsection \<open>Component model\<close>

record Release =
  Chart :: string
  Version :: string

record Metadata =
  ChartRepository :: string
  ReleaseVersion :: string

datatype config_value =
    StringValue string
  | IntValue int
  | BoolValue bool
  | MetadataValue Metadata

type_synonym Configuration = "string \<rightharpoonup> config_value"

text \<open>
  Modelled from the spec: the Component entity of the data model (the struct itself is
  missing): name, namespace, release reference, configuration, secret names and
  resolved secret values. The tests build components whose release is absent
  (\<^verbatim>\<open>&Component{Name: "cmpA"}\<close>), so the release is optional.
\<close>

record Component =
  Name :: string
  Namespace :: string
  Release :: "Release option"
  Configuration :: Configuration
  Secrets :: Secrets
  SecretValues :: SecretValues

type_synonym Components = "string \<rightharpoonup> Component"

text \<open>
  Modelled from the spec: the equality rule of the data model (the comparison of
  components is missing): two components are equal for diffing iff every field except
  \<^verbatim>\<open>SecretValues\<close> is equal. Both sides are compared with their secret values
  blanked.
\<close>

definition Equals :: "Component \<Rightarrow> Component \<Rightarrow> bool" where
  "Equals a b = (a\<lparr>SecretValues := Map.empty\<rparr> = b\<lparr>SecretValues := Map.empty\<rparr>)"

subsection \<open>Differ\<close>

text \<open>
  Modelled from the spec: \<^verbatim>\<open>diff(desired, current) -> (create, update, delete)\<close> (the
  function is missing). Names only in \<open>desired\<close> go to \<open>create\<close>, names only in
  \<open>current\<close> go to \<open>delete\<close>, and a name in both goes to \<open>update\<close>, with the desired
  value, when the two components are unequal by the equality rule.
\<close>

definition diff :: "Components \<Rightarrow> Components \<Rightarrow> Components \<times> Components \<times> Components" where
  "diff desired current =
     (let create = desired |` (- dom current);
          update = (\<lambda>name.
             case desired name of
               None \<Rightarrow> None
             | Some desiredCmp \<Rightarrow>
                 (case current name of
                    None \<Rightarrow> None
                  | Some currentCmp \<Rightarrow>
                      if Equals desiredCmp currentCmp then None else Some desiredCmp));
          delete = current |` (- dom desired)
      in (create, update, delete))"

text \<open>
  Modelled from the spec: \<^verbatim>\<open>isOnlySecretValueDiff(a, b)\<close> (the function is missing):
  true iff the components are identical in every field except \<^verbatim>\<open>SecretValues\<close> and
  the secret values differ.
\<close>

definition isOnlySecretValueDiff :: "Component \<Rightarrow> Component \<Rightarrow> bool" where
  "isOnlySecretValueDiff a b = (SecretValues a \<noteq> SecretValues b \<and> Equals a b)"

subsection \<open>Forced-update integrator\<close>

text \<open>
  Modelled from the spec: \<^verbatim>\<open>integrateForcedUpdates(current, create, update, delete,
  needForcedUpdate)\<close> (the function is missing). \<^verbatim>\<open>needForcedUpdate\<close> is a Go
  \<^verbatim>\<open>map[string]bool\<close>, which reads false at a name it does not hold. For every name in
  \<open>update\<close> that is flagged: it leaves \<open>update\<close>, the current value is added to
  \<open>delete\<close> and the desired value, the one in \<open>update\<close>, is added to \<open>create\<close>.
\<close>

definition integrateForcedUpdates ::
  "Components \<Rightarrow> Components \<Rightarrow> Components \<Rightarrow> Components \<Rightarrow> (string \<Rightarrow> bool)
     \<Rightarrow> Components \<times> Components \<times> Components" where
  "integrateForcedUpdates current create update delete needForcedUpdate =
     (let forced = {name \<in> dom update. needForcedUpdate name}
      in (create ++ (update |` forced), update |` (- forced), delete ++ (current |` forced)))"

subsection \<open>The executor and its collaborators\<close>

record chart_Template =
  template_Data :: bytes

record chart_Chart =
  Templates :: "chart_Template list"

text \<open>
  The chart loader is a collaborator: \<^verbatim>\<open>Load(chartRef)\<close> answers the Go triple of the
  chart (a pointer, \<^verbatim>\<open>nil\<close> in several tests), the local path and the error.
\<close>

type_synonym ChartLoader = "string \<Rightarrow> chart_Chart option \<times> string \<times> error option"

text \<open>
  The secret store as the executor sees it, the interface \<^verbatim>\<open>SecretsWriteDeleter\<close> of
  secrets.go, and the provider that \<^verbatim>\<open>NewKubeSecretsReadWriteDeleter\<close> makes of a
  client.
\<close>

record 's SecretsWriteDeleter =
  Write :: "string \<Rightarrow> string \<Rightarrow> SecretValues \<Rightarrow> 's world \<Rightarrow> error option \<times> 's world"
  Delete :: "string \<Rightarrow> string \<Rightarrow> 's world \<Rightarrow> error option \<times> 's world"

definition NewKubeSecretsReadWriteDeleter :: "'s CoreInterface \<Rightarrow> 's SecretsWriteDeleter" where
  "NewKubeSecretsReadWriteDeleter kubeClient =
     \<lparr>Write = kubeSecretsProvider_Write kubeClient,
      Delete = kubeSecretsProvider_Delete kubeClient\<rparr>"

text \<open>
  The executor as \<^verbatim>\<open>NewExecutor\<close> is called in the tests: the release backend (of
  which only the update is modelled, as the answer to a release name and a chart
  path), the chart loader, the secret store and the dry-run flag.
\<close>

record 's executor =
  updateRelease :: "string \<Rightarrow> string \<Rightarrow> error option"
  chartLoader :: ChartLoader
  secretsProvider :: "'s SecretsWriteDeleter"
  dryRun :: bool

subsection \<open>Cron-like detector\<close>

text \<open>\<^verbatim>\<open>strings.Contains\<close>: the text holds the marker somewhere.\<close>

fun Contains :: "string \<Rightarrow> string \<Rightarrow> bool" where
  "Contains [] substr = (substr = [])"
| "Contains (c # cs) substr = (prefix substr (c # cs) \<or> Contains cs substr)"

definition scheduledJobMarker :: string where
  "scheduledJobMarker = ''type: ScheduledJob''"

text \<open>
  Modelled from the spec: \<^verbatim>\<open>isCronJob(component) -> (bool, error)\<close> (the function is
  missing). The package reference of the component is resolved (\<open>chartRef\<close>, a
  parameter: how a component names its package is not under src/) and loaded; a loader
  error is returned as it is; otherwise the answer is whether any template body of the
  chart holds the marker. A chart that is \<^verbatim>\<open>nil\<close> has no templates.
\<close>

definition isCronJob ::
  "(Component \<Rightarrow> string) \<Rightarrow> 's executor \<Rightarrow> Component \<Rightarrow> error + bool" where
  "isCronJob chartRef e cmp =
     (case chartLoader e (chartRef cmp) of
        (chart, chartPath, Some err) \<Rightarrow> Inl err
      | (chart, chartPath, None) \<Rightarrow>
          Inr (list_ex (\<lambda>template. Contains (template_Data template) scheduledJobMarker)
                 (case chart of None \<Rightarrow> [] | Some ch \<Rightarrow> Templates ch)))"

subsection \<open>Updating a component\<close>

text \<open>
  Modelled from the spec: \<^verbatim>\<open>UpdateComponent(c)\<close> (the function is missing): resolve
  and load the package; write \<^verbatim>\<open>c.SecretValues\<close> to the secret store under the
  component's name and namespace, overwriting prior values; then issue the update
  against the release backend, keyed by the component's name, with the resolved path.
  The store has no operation that replaces an entry: \<^verbatim>\<open>Write\<close> of secrets.go sends a
  creation. Prior values are overwritten by deleting the entry first and writing it
  then, as the comment in \<^verbatim>\<open>Delete\<close> says (``We first completely delete the current
  secrets'') and as \<^verbatim>\<open>TestExecutorUpdate\<close> expects, whose store answers a delete
  beside the write. An error of a collaborator is returned as it is and ends the
  operation; a dry run suppresses the call to the release backend.
\<close>

definition UpdateComponent ::
  "(Component \<Rightarrow> string) \<Rightarrow> 's executor \<Rightarrow> Component \<Rightarrow> 's world \<Rightarrow> error option \<times> 's world" where
  "UpdateComponent chartRef e cmp w =
     (case chartLoader e (chartRef cmp) of
        (chart, chartPath, Some err) \<Rightarrow> (Some err, w)
      | (chart, chartPath, None) \<Rightarrow>
          (case Delete (secretsProvider e) (Name cmp) (Namespace cmp) w of
             (Some err, w1) \<Rightarrow> (Some err, w1)
           | (None, w1) \<Rightarrow>
               (case Write (secretsProvider e) (Name cmp) (Namespace cmp) (SecretValues cmp) w1 of
                  (Some err, w2) \<Rightarrow> (Some err, w2)
                | (None, w2) \<Rightarrow>
                    if dryRun e then (None, w2)
                    else (updateRelease e (Name cmp) chartPath,
                          w2\<lparr>trace := trace w2 @
                               [Request (UpdateRelease (Name cmp) chartPath)]\<rparr>))))"

subsection \<open>The components and collaborators of the tests\<close>

text \<open>
  \<^verbatim>\<open>newTestComponent\<close> of executor\_test.go. The metadata that \<^verbatim>\<open>SetMetadata\<close>
  injects into the configuration is left out: how it is stored is not under src/.
\<close>

definition newTestComponent :: "string \<Rightarrow> Component" where
  "newTestComponent name =
     \<lparr>Name = name,
      Namespace = ''myNameSpace'',
      Release = Some \<lparr>Chart = ''connector-hdfs:0.1.0'', Version = ''1.0.0''\<rparr>,
      Configuration =
        [''GroupID'' \<mapsto> StringValue ''hdfs-rtwind'',
         ''HdfsUrl'' \<mapsto> StringValue ''hdfs://hadoop:8020'',
         ''PartitionField'' \<mapsto> StringValue ''partition1'',
         ''TasksMax'' \<mapsto> IntValue 1,
         ''Topics'' \<mapsto> StringValue ''topic1,topic2'',
         ''FlushSize'' \<mapsto> IntValue 3,
         ''FilenameOffsetZeroPadWidth'' \<mapsto> IntValue 1],
      Secrets = [''TestSecret1'', ''TestSecret2''],
      SecretValues =
        [''TestSecret1'' \<mapsto> ''secret value 1'', ''TestSecret2'' \<mapsto> ''secret value 2'']\<rparr>"

text \<open>The components of \<^verbatim>\<open>TestExecutorDiff\<close>: a name, perhaps a chart, and Go's zero
  values elsewhere.\<close>

definition bareComponent :: "string \<Rightarrow> Release option \<Rightarrow> Component" where
  "bareComponent name release =
     \<lparr>Name = name, Namespace = [], Release = release, Configuration = Map.empty,
      Secrets = [], SecretValues = Map.empty\<rparr>"

definition chartOnly :: "string \<Rightarrow> Release option" where
  "chartOnly c = Some \<lparr>Chart = c, Version = []\<rparr>"

definition testCurrent :: Components where
  "testCurrent =
     [''cmpA'' \<mapsto> bareComponent ''cmpA'' None,
      ''cmpB'' \<mapsto> bareComponent ''cmpB'' (chartOnly ''chart1''),
      ''cmpC'' \<mapsto> bareComponent ''cmpC'' None]"

definition testDesired :: Components where
  "testDesired =
     [''cmpD'' \<mapsto> bareComponent ''cmpD'' None,
      ''cmpB'' \<mapsto> bareComponent ''cmpB'' (chartOnly ''chart2''),
      ''cmpC'' \<mapsto> bareComponent ''cmpC'' None]"

text \<open>The loader of \<^verbatim>\<open>TestIsCronJob\<close>: one template with the given body, an empty
  path, and the given error.\<close>

definition rigLoader :: "string \<Rightarrow> error option \<Rightarrow> ChartLoader" where
  "rigLoader body err =
     (\<lambda>chartRef. (Some \<lparr>Templates = [\<lparr>template_Data = body\<rparr>]\<rparr>, [], err))"

text \<open>The loader of \<^verbatim>\<open>TestExecutorUpdate\<close>: no chart, a path, no error; and an
  executor over the in-memory cluster whose release backend accepts every update.\<close>

definition pathLoader :: ChartLoader where
  "pathLoader = (\<lambda>chartRef. (None, ''/opt/store/whatever/path/'', None))"

definition memory_executor :: "ChartLoader \<Rightarrow> cluster_state executor" where
  "memory_executor loader =
     \<lparr>updateRelease = (\<lambda>rlsName chStr. None),
      chartLoader = loader,
      secretsProvider = NewKubeSecretsReadWriteDeleter memory_client,
      dryRun = False\<rparr>"

definition repoRef :: "Component \<Rightarrow> string" where
  "repoRef cmp = ''repo/'' @ (case Release cmp of None \<Rightarrow> [] | Some r \<Rightarrow> Chart r)"

text \<open>A cluster that already holds a secret object for the component \<open>y\<close>.\<close>

definition cluster_with_y :: cluster_state where
  "cluster_with_y =
     \<lparr>stored_namespaces = {''myNameSpace''},
      stored_secrets = [(''myNameSpace'', ''y'') \<mapsto> [''TestSecret1'' \<mapsto> ''old value'']]\<rparr>"

text \<open>The maps of \<^verbatim>\<open>TestIntegrateForcedUpdates\<close>, with \<open>F\<close> flagged.\<close>

definition forcedCurrent :: Components where
  "forcedCurrent =
     [''U'' \<mapsto> newTestComponent ''U'', ''F'' \<mapsto> newTestComponent ''F'',
      ''D'' \<mapsto> newTestComponent ''D'']"

definition forcedCreate :: Components where
  "forcedCreate = [''C'' \<mapsto> newTestComponent ''C'']"

definition forcedUpdate :: Components where
  "forcedUpdate = [''U'' \<mapsto> newTestComponent ''U'', ''F'' \<mapsto> newTestComponent ''F'']"

definition forcedDelete :: Components where
  "forcedDelete = [''D'' \<mapsto> newTestComponent ''D'']"

definition needF :: "string \<Rightarrow> bool" where
  "needF name = (name = ''F'')"

text \<open>
  On a name of ASCII bytes \<^verbatim>\<open>strings.ToUpper\<close> moves the letters a to z to A to Z
  and keeps every other byte. The names of the examples are ASCII, and this function
  stands for the library's there.
\<close>

definition toUpperASCII :: "string \<Rightarrow> string" where
  "toUpperASCII s =
     map (\<lambda>c. let n = (of_char c :: nat)
              in if 97 \<le> n \<and> n \<le> 122 then char_of (n - 32) else c) s"

text \<open>An environment with one secret set.\<close>

definition testEnviron :: environ where
  "testEnviron = [''TEST_SECRET1'' \<mapsto> ''s3cr3t'']"

definition forbidden :: error where
  "forbidden = StatusError StatusReasonForbidden ''forbidden''"

section \<open>Properties\<close>

subsection \<open>Auxiliary facts\<close>

lemma requests_append: "requests (xs @ ys) = requests xs @ requests ys"
  by (induction xs rule: requests.induct) simp_all

lemma trace_logrus: "trace (logrus lvl fs msg w) = trace w @ [Log lvl fs msg]"
  by (simp add: logrus_def)

lemma cluster_logrus: "cluster (logrus lvl fs msg w) = cluster w"
  by (simp add: logrus_def)

lemma send_eq:
  "m (cluster w) = (r, s') \<Longrightarrow>
     send rq m w = (r, w\<lparr>trace := trace w @ [Request rq], cluster := s'\<rparr>)"
  by (simp add: send_def)

lemma ensureNamespace_eq:
  assumes "Namespaces_Create cl \<lparr>namespace_ObjectMeta = \<lparr>meta_Name = namespace\<rparr>\<rparr> (cluster w)
             = (r1, s1)"
  shows "ensureNamespace cl namespace w =
           (if IsAlreadyExists (errorOf r1) then None else errorOf r1,
            w\<lparr>trace := trace w @
                 [Request (CreateNamespace \<lparr>namespace_ObjectMeta = \<lparr>meta_Name = namespace\<rparr>\<rparr>)],
              cluster := s1\<rparr>)"
  using assms by (simp add: ensureNamespace_def Let_def send_eq)

lemmas memory_defs =
  memory_client_def memory_Secrets_Get_def memory_Secrets_Create_def
  memory_Secrets_Delete_def memory_Namespaces_Create_def

lemma kube_Delete_eq:
  assumes "Secrets_Delete cl namespace componentName (cluster w) = (err, s')"
  shows "fst (kubeSecretsProvider_Delete cl componentName namespace w) =
           (if IsNotFound err then None else err)"
    and "cluster (snd (kubeSecretsProvider_Delete cl componentName namespace w)) = s'"
    and "requests (trace (snd (kubeSecretsProvider_Delete cl componentName namespace w))) =
           requests (trace w) @ [DeleteSecret namespace componentName]"
  using assms
  by (cases err;
      simp add: kubeSecretsProvider_Delete_def Let_def send_def cluster_logrus trace_logrus
        requests_append IsNotFound_def)+

lemma kube_Write_eq:
  assumes "Namespaces_Create cl \<lparr>namespace_ObjectMeta = \<lparr>meta_Name = namespace\<rparr>\<rparr> (cluster w)
             = (r1, s1)"
    and "IsAlreadyExists (errorOf r1) \<or> errorOf r1 = None"
    and "Secrets_Create cl namespace
           \<lparr>secret_ObjectMeta = \<lparr>meta_Name = componentName\<rparr>, Data = secrets\<rparr> s1 = (r2, s2)"
  shows "fst (kubeSecretsProvider_Write cl componentName namespace secrets w) = errorOf r2"
    and "cluster (snd (kubeSecretsProvider_Write cl componentName namespace secrets w)) = s2"
    and "requests (trace (snd (kubeSecretsProvider_Write cl componentName namespace secrets w))) =
           requests (trace w) @
             [CreateNamespace \<lparr>namespace_ObjectMeta = \<lparr>meta_Name = namespace\<rparr>\<rparr>,
              CreateSecret namespace
                \<lparr>secret_ObjectMeta = \<lparr>meta_Name = componentName\<rparr>, Data = secrets\<rparr>]"
proof -
  let ?w1 = "logrus InfoLevel (cmpFields componentName namespace)
               ''Writing secrets for component'' w"
  have "Namespaces_Create cl \<lparr>namespace_ObjectMeta = \<lparr>meta_Name = namespace\<rparr>\<rparr> (cluster ?w1)
          = (r1, s1)"
    using assms(1) by (simp add: cluster_logrus)
  note en = ensureNamespace_eq [OF this]
  have ok: "(if IsAlreadyExists (errorOf r1) then None else errorOf r1) = None"
    using assms(2) by auto
  have ens: "ensureNamespace cl namespace ?w1 =
               (None, ?w1\<lparr>trace := trace ?w1 @
                  [Request (CreateNamespace \<lparr>namespace_ObjectMeta = \<lparr>meta_Name = namespace\<rparr>\<rparr>)],
                  cluster := s1\<rparr>)"
    by (simp only: en ok)
  show "fst (kubeSecretsProvider_Write cl componentName namespace secrets w) = errorOf r2"
    using assms(3)
    by (cases r2)
       (simp_all add: kubeSecretsProvider_Write_def Let_def ens send_def errorOf_def)
  show "cluster (snd (kubeSecretsProvider_Write cl componentName namespace secrets w)) = s2"
    using assms(3)
    by (cases r2)
       (simp_all add: kubeSecretsProvider_Write_def Let_def ens send_def cluster_logrus)
  show "requests (trace (snd (kubeSecretsProvider_Write cl componentName namespace secrets w))) =
           requests (trace w) @
             [CreateNamespace \<lparr>namespace_ObjectMeta = \<lparr>meta_Name = namespace\<rparr>\<rparr>,
              CreateSecret namespace
                \<lparr>secret_ObjectMeta = \<lparr>meta_Name = componentName\<rparr>, Data = secrets\<rparr>]"
    using assms(3)
    by (cases r2)
       (simp_all add: kubeSecretsProvider_Write_def Let_def ens send_def trace_logrus
          requests_append)
qed

lemma answer_None: "answer err = None \<longleftrightarrow> err = None"
  by (cases err) (simp_all add: answer_def)

lemma answer_NotFound: "answer err = Some StatusReasonNotFound \<Longrightarrow> IsNotFound err"
  by (cases err) (simp_all add: answer_def IsNotFound_def)

lemma answer_AlreadyExists:
  "answer err = Some StatusReasonAlreadyExists \<Longrightarrow> IsAlreadyExists err"
  by (cases err) (simp_all add: answer_def IsAlreadyExists_def)

lemma conforms_Delete:
  assumes "conforms cl view"
  shows "answer (fst (Secrets_Delete cl namespace name s)) =
           answer (fst (memory_Secrets_Delete namespace name (view s)))"
    and "view (snd (Secrets_Delete cl namespace name s)) =
           snd (memory_Secrets_Delete namespace name (view s))"
  using assms unfolding conforms_def by blast+

lemma conforms_Create:
  assumes "conforms cl view"
  shows "answer (errorOf (fst (Secrets_Create cl namespace secret s))) =
           answer (errorOf (fst (memory_Secrets_Create namespace secret (view s))))"
    and "view (snd (Secrets_Create cl namespace secret s)) =
           snd (memory_Secrets_Create namespace secret (view s))"
  using assms unfolding conforms_def by blast+

lemma conforms_Namespace:
  assumes "conforms cl view"
  shows "answer (errorOf (fst (Namespaces_Create cl ns s))) =
           answer (errorOf (fst (memory_Namespaces_Create ns (view s))))"
    and "view (snd (Namespaces_Create cl ns s)) =
           snd (memory_Namespaces_Create ns (view s))"
  using assms unfolding conforms_def by blast+

lemma conforms_memory_client: "conforms memory_client (\<lambda>s. s)"
  by (simp add: conforms_def memory_client_def)

lemma Equals_iff:
  "Equals a b \<longleftrightarrow>
     Name a = Name b \<and> Namespace a = Namespace b \<and> Release a = Release b \<and>
     Configuration a = Configuration b \<and> Secrets a = Secrets b"
  by (cases a, cases b) (auto simp: Equals_def)

lemma Contains_sublist: "Contains s substr = sublist substr s"
  by (induction s) (simp_all add: sublist_Cons_right)

lemma Contains_iff: "Contains s substr \<longleftrightarrow> (\<exists>p q. s = p @ substr @ q)"
  by (simp add: Contains_sublist sublist_def)

lemma Replace_dash:
  "Replace s ''-'' ''_'' = map (\<lambda>c. if c = CHR ''-'' then CHR ''_'' else c) s"
  by (induction s) auto

lemma fst_readKey:
  "fst (readKey ToUpper env key (secs, w)) =
     secs(key \<mapsto> Getenv env (Replace (ToUpper key) ''-'' ''_''))"
  by (simp add: readKey_def Let_def)

lemma fst_fold_readKey:
  "fst (fold (readKey ToUpper env) names (secs, w)) =
     (\<lambda>k. if k \<in> set names then Some (Getenv env (Replace (ToUpper k) ''-'' ''_''))
          else secs k)"
proof (induction names arbitrary: secs w)
  case Nil
  show ?case by simp
next
  case (Cons key names)
  obtain secs1 w1 where step: "readKey ToUpper env key (secs, w) = (secs1, w1)"
    by (cases "readKey ToUpper env key (secs, w)")
  have secs1: "secs1 = secs(key \<mapsto> Getenv env (Replace (ToUpper key) ''-'' ''_''))"
    using fst_readKey [of ToUpper env key secs w] step by simp
  show ?case
    by (auto simp: step Cons.IH secs1 fun_eq_iff)
qed

lemma toUpperASCII_test_secret1: "toUpperASCII ''test-secret1'' = ''TEST-SECRET1''"
  by code_simp

lemma toUpperASCII_other: "toUpperASCII ''other'' = ''OTHER''"
  by code_simp

subsection \<open>The Kubernetes secret store\<close>

text \<open>
  C6. When the request for the secret object of a component fails, the reader's
  \<^verbatim>\<open>Read\<close> answers as follows, whatever the names asked for: if the backend reports
  not-found, the result is the empty mapping with a nil error; any other error is
  returned as it is, with a nil mapping.
\<close>

theorem kube_Read_backend_error:
  assumes "Secrets_Get cl namespace componentName (cluster w) = (Inl err, s')"
  shows "fst (kubeSecretsProvider_Read cl componentName namespace secretNames w) =
           (if IsNotFound (Some err) then (Some Map.empty, None) else (None, Some err))"
  using assms
  by (simp add: kubeSecretsProvider_Read_def Let_def send_def cluster_logrus)

theorem kube_Read_backend_error_witness:
  "Secrets_Get memory_client ''myNameSpace'' ''x'' (cluster (start empty_cluster)) =
     (Inl (StatusError StatusReasonNotFound ''secret not found''), empty_cluster)
   \<and> fst (kubeSecretsProvider_Read memory_client ''x'' ''myNameSpace'' [''TestSecret1'']
            (start empty_cluster)) = (Some Map.empty, None)
   \<and> Secrets_Get (failing_client forbidden) ''myNameSpace'' ''x'' (cluster (start ())) =
       (Inl forbidden, ())
   \<and> fst (kubeSecretsProvider_Read (failing_client forbidden) ''x'' ''myNameSpace''
            [''TestSecret1''] (start ())) = (None, Some forbidden)"
proof -
  have g1: "Secrets_Get memory_client ''myNameSpace'' ''x'' (cluster (start empty_cluster)) =
     (Inl (StatusError StatusReasonNotFound ''secret not found''), empty_cluster)"
    by (simp add: memory_defs start_def empty_cluster_def)
  have g2: "Secrets_Get (failing_client forbidden) ''myNameSpace'' ''x'' (cluster (start ())) =
       (Inl forbidden, ())"
    by (simp add: failing_client_def)
  show ?thesis
    using g1 g2
      kube_Read_backend_error [OF g1, of "[''TestSecret1'']"]
      kube_Read_backend_error [OF g2, of "[''TestSecret1'']"]
    by (simp add: IsNotFound_def forbidden_def)
qed

text \<open>
  C7. \<^verbatim>\<open>Delete\<close> of the Kubernetes secret store is idempotent: when the backend
  reports not-found for the entry, \<^verbatim>\<open>Delete\<close> returns nil; any other error of the
  backend is returned as it is (and so is the nil of a deletion that succeeded).
\<close>

theorem kube_Delete_idempotent:
  assumes "Secrets_Delete cl namespace componentName (cluster w) = (err, s')"
  shows "fst (kubeSecretsProvider_Delete cl componentName namespace w) =
           (if IsNotFound err then None else err)"
  using assms
  by (cases err)
     (simp_all add: kubeSecretsProvider_Delete_def Let_def send_def cluster_logrus IsNotFound_def)

theorem kube_Delete_idempotent_witness:
  "Secrets_Delete memory_client ''myNameSpace'' ''x'' (cluster (start empty_cluster)) =
     (Some (StatusError StatusReasonNotFound ''secret not found''), empty_cluster)
   \<and> fst (kubeSecretsProvider_Delete memory_client ''x'' ''myNameSpace'' (start empty_cluster)) = None
   \<and> Secrets_Delete (failing_client forbidden) ''myNameSpace'' ''x'' (cluster (start ())) =
       (Some forbidden, ())
   \<and> fst (kubeSecretsProvider_Delete (failing_client forbidden) ''x'' ''myNameSpace'' (start ())) =
       Some forbidden"
proof -
  have d1: "Secrets_Delete memory_client ''myNameSpace'' ''x'' (cluster (start empty_cluster)) =
     (Some (StatusError StatusReasonNotFound ''secret not found''), empty_cluster)"
    by (simp add: memory_defs start_def empty_cluster_def)
  have d2: "Secrets_Delete (failing_client forbidden) ''myNameSpace'' ''x'' (cluster (start ())) =
       (Some forbidden, ())"
    by (simp add: failing_client_def)
  show ?thesis
    using d1 d2 kube_Delete_idempotent [OF d1] kube_Delete_idempotent [OF d2]
    by (simp add: IsNotFound_def forbidden_def)
qed

text \<open>
  C8. \<^verbatim>\<open>Write\<close> of the Kubernetes secret store first sends the creation of the target
  namespace. If that creation succeeds or answers already-exists, the creation of the
  secret object, named after the component and holding the values, is sent next in
  that namespace, on the cluster the namespace request left, and the result of
  \<^verbatim>\<open>Write\<close> is the result of that creation: an already-existing namespace is no
  failure of the write. Any other error of the namespace creation is returned, and no
  secret is sent.
\<close>

theorem kube_Write_namespace_first:
  assumes "Namespaces_Create cl \<lparr>namespace_ObjectMeta = \<lparr>meta_Name = namespace\<rparr>\<rparr> (cluster w)
             = (r1, s1)"
      and "Secrets_Create cl namespace
             \<lparr>secret_ObjectMeta = \<lparr>meta_Name = componentName\<rparr>, Data = secrets\<rparr> s1 = (r2, s2)"
  shows "(IsAlreadyExists (errorOf r1) \<or> errorOf r1 = None \<longrightarrow>
            fst (kubeSecretsProvider_Write cl componentName namespace secrets w) = errorOf r2 \<and>
            requests (trace (snd (kubeSecretsProvider_Write cl componentName namespace secrets w))) =
              requests (trace w) @
                [CreateNamespace \<lparr>namespace_ObjectMeta = \<lparr>meta_Name = namespace\<rparr>\<rparr>,
                 CreateSecret namespace
                   \<lparr>secret_ObjectMeta = \<lparr>meta_Name = componentName\<rparr>, Data = secrets\<rparr>] \<and>
            cluster (snd (kubeSecretsProvider_Write cl componentName namespace secrets w)) = s2)
       \<and> (\<not> IsAlreadyExists (errorOf r1) \<and> errorOf r1 \<noteq> None \<longrightarrow>
            fst (kubeSecretsProvider_Write cl componentName namespace secrets w) = errorOf r1 \<and>
            requests (trace (snd (kubeSecretsProvider_Write cl componentName namespace secrets w))) =
              requests (trace w) @
                [CreateNamespace \<lparr>namespace_ObjectMeta = \<lparr>meta_Name = namespace\<rparr>\<rparr>] \<and>
            cluster (snd (kubeSecretsProvider_Write cl componentName namespace secrets w)) = s1)"
proof -
  let ?w1 = "logrus InfoLevel (cmpFields componentName namespace)
               ''Writing secrets for component'' w"
  have "Namespaces_Create cl \<lparr>namespace_ObjectMeta = \<lparr>meta_Name = namespace\<rparr>\<rparr> (cluster ?w1)
          = (r1, s1)"
    using assms(1) by (simp add: cluster_logrus)
  note en = ensureNamespace_eq [OF this]
  show ?thesis
  proof (cases "IsAlreadyExists (errorOf r1) \<or> errorOf r1 = None")
    case True
    then have ok: "(if IsAlreadyExists (errorOf r1) then None else errorOf r1) = None"
      by auto
    show ?thesis
      using True assms(2)
      by (cases r2)
         (auto simp: kubeSecretsProvider_Write_def Let_def en ok send_def trace_logrus
            cluster_logrus requests_append errorOf_def)
  next
    case False
    then obtain e where e: "errorOf r1 = Some e" and n: "\<not> IsAlreadyExists (errorOf r1)"
      by auto
    show ?thesis
      using False
      by (simp add: kubeSecretsProvider_Write_def Let_def en e n trace_logrus
            cluster_logrus requests_append)
  qed
qed

theorem kube_Write_namespace_first_witness:
  "Namespaces_Create memory_client \<lparr>namespace_ObjectMeta = \<lparr>meta_Name = ''myNameSpace''\<rparr>\<rparr>
       (cluster (start cluster_with_y)) =
     (Inl (StatusError StatusReasonAlreadyExists ''namespace already exists''), cluster_with_y)
   \<and> fst (kubeSecretsProvider_Write memory_client ''x'' ''myNameSpace''
            [''TestSecret1'' \<mapsto> ''secret value 1''] (start cluster_with_y)) = None
   \<and> requests (trace (snd (kubeSecretsProvider_Write memory_client ''x'' ''myNameSpace''
            [''TestSecret1'' \<mapsto> ''secret value 1''] (start cluster_with_y)))) =
       [CreateNamespace \<lparr>namespace_ObjectMeta = \<lparr>meta_Name = ''myNameSpace''\<rparr>\<rparr>,
        CreateSecret ''myNameSpace''
          \<lparr>secret_ObjectMeta = \<lparr>meta_Name = ''x''\<rparr>,
           Data = [''TestSecret1'' \<mapsto> ''secret value 1'']\<rparr>]
   \<and> fst (kubeSecretsProvider_Write (failing_client forbidden) ''x'' ''myNameSpace''
            [''TestSecret1'' \<mapsto> ''secret value 1''] (start ())) = Some forbidden
   \<and> requests (trace (snd (kubeSecretsProvider_Write (failing_client forbidden) ''x''
            ''myNameSpace'' [''TestSecret1'' \<mapsto> ''secret value 1''] (start ())))) =
       [CreateNamespace \<lparr>namespace_ObjectMeta = \<lparr>meta_Name = ''myNameSpace''\<rparr>\<rparr>]"
proof -
  let ?secret = "\<lparr>secret_ObjectMeta = \<lparr>meta_Name = ''x''\<rparr>,
                  Data = [''TestSecret1'' \<mapsto> ''secret value 1'']\<rparr>"
  have n1: "Namespaces_Create memory_client
              \<lparr>namespace_ObjectMeta = \<lparr>meta_Name = ''myNameSpace''\<rparr>\<rparr>
              (cluster (start cluster_with_y)) =
            (Inl (StatusError StatusReasonAlreadyExists ''namespace already exists''),
             cluster_with_y)"
    by (simp add: memory_defs start_def cluster_with_y_def Let_def)
  have c1: "Secrets_Create memory_client ''myNameSpace'' ?secret cluster_with_y =
            (Inr ?secret,
             cluster_with_y\<lparr>stored_secrets := (stored_secrets cluster_with_y)
               ((''myNameSpace'', ''x'') \<mapsto> [''TestSecret1'' \<mapsto> ''secret value 1''])\<rparr>)"
    by (simp add: memory_defs cluster_with_y_def Let_def)
  have n2: "Namespaces_Create (failing_client forbidden)
              \<lparr>namespace_ObjectMeta = \<lparr>meta_Name = ''myNameSpace''\<rparr>\<rparr> (cluster (start ())) =
            (Inl forbidden, ())"
    by (simp add: failing_client_def)
  have c2: "Secrets_Create (failing_client forbidden) ''myNameSpace'' ?secret () =
            (Inl forbidden, ())"
    by (simp add: failing_client_def)
  show ?thesis
    using n1 kube_Write_namespace_first [OF n1 c1] kube_Write_namespace_first [OF n2 c2]
    by (simp add: errorOf_def IsAlreadyExists_def forbidden_def start_def)
qed

text \<open>
  C10. The result of the Kubernetes reader's \<^verbatim>\<open>Read\<close> does not depend on the names
  asked for: on the same client, component, namespace and world, two calls with
  different lists of names return the same mapping and error (and leave the same
  world); when the secret object exists, the mapping is the whole of its data.
\<close>

theorem kube_Read_ignores_secretNames:
  "kubeSecretsProvider_Read cl componentName namespace secretNames1 w =
     kubeSecretsProvider_Read cl componentName namespace secretNames2 w
   \<and> (\<forall>secret s'. Secrets_Get cl namespace componentName (cluster w) = (Inr secret, s') \<longrightarrow>
        fst (kubeSecretsProvider_Read cl componentName namespace secretNames1 w) =
          (Some (Data secret), None))"
  by (simp add: kubeSecretsProvider_Read_def send_def logrus_def Let_def)

theorem kube_Read_ignores_secretNames_witness:
  "Secrets_Get memory_client ''myNameSpace'' ''y'' (cluster (start cluster_with_y)) =
     (Inr \<lparr>secret_ObjectMeta = \<lparr>meta_Name = ''y''\<rparr>, Data = [''TestSecret1'' \<mapsto> ''old value'']\<rparr>,
      cluster_with_y)
   \<and> fst (kubeSecretsProvider_Read memory_client ''y'' ''myNameSpace'' [] (start cluster_with_y)) =
       (Some [''TestSecret1'' \<mapsto> ''old value''], None)
   \<and> kubeSecretsProvider_Read memory_client ''y'' ''myNameSpace'' [] (start cluster_with_y) =
       kubeSecretsProvider_Read memory_client ''y'' ''myNameSpace'' [''TestSecret2'']
         (start cluster_with_y)"
proof -
  have g: "Secrets_Get memory_client ''myNameSpace'' ''y'' (cluster (start cluster_with_y)) =
     (Inr \<lparr>secret_ObjectMeta = \<lparr>meta_Name = ''y''\<rparr>, Data = [''TestSecret1'' \<mapsto> ''old value'']\<rparr>,
      cluster_with_y)"
    by (simp add: memory_defs start_def cluster_with_y_def)
  note k = kube_Read_ignores_secretNames
    [of memory_client "''y''" "''myNameSpace''" "[]" "start cluster_with_y" "[''TestSecret2'']"]
  from k have e: "kubeSecretsProvider_Read memory_client ''y'' ''myNameSpace'' []
        (start cluster_with_y) =
      kubeSecretsProvider_Read memory_client ''y'' ''myNameSpace'' [''TestSecret2'']
        (start cluster_with_y)"
    by (rule conjunct1)
  have v: "fst (kubeSecretsProvider_Read memory_client ''y'' ''myNameSpace'' []
        (start cluster_with_y)) = (Some [''TestSecret1'' \<mapsto> ''old value''], None)"
    using conjunct2 [OF k, rule_format, OF g] by simp
  show ?thesis
    by (intro conjI) (rule g, rule v, rule e)
qed

subsection \<open>The environment as a source of secrets\<close>

text \<open>
  C9. For every list of secret names, \<^verbatim>\<open>Read\<close> of the environment reader returns,
  with a nil error, a mapping that holds exactly the requested names; the entry of a
  name is the value of the environment variable named by the upper-cased name
  (\<^verbatim>\<open>strings.ToUpper\<close>, whatever that library function answers) with every \<open>-\<close>
  turned into \<open>_\<close>, and it is the empty byte value when that variable is unset or
  empty.
\<close>

theorem environment_Read_values:
  "\<exists>secs. fst (environmentSecrets_Read ToUpper env componentName namespace secretNames w) =
            (Some secs, None)
     \<and> dom secs = set secretNames
     \<and> (\<forall>key \<in> set secretNames.
          secs key =
            Some (Getenv env (map (\<lambda>c. if c = CHR ''-'' then CHR ''_'' else c) (ToUpper key)))
          \<and> (env (map (\<lambda>c. if c = CHR ''-'' then CHR ''_'' else c) (ToUpper key)) = None \<or>
             env (map (\<lambda>c. if c = CHR ''-'' then CHR ''_'' else c) (ToUpper key)) = Some []
             \<longrightarrow> secs key = Some []))"
proof -
  obtain secs w' where f: "fold (readKey ToUpper env) secretNames (Map.empty, w) = (secs, w')"
    by (cases "fold (readKey ToUpper env) secretNames (Map.empty, w)")
  have secs: "secs = (\<lambda>k. if k \<in> set secretNames
                then Some (Getenv env (Replace (ToUpper k) ''-'' ''_'')) else None)"
    using fst_fold_readKey [of ToUpper env secretNames Map.empty w] f by simp
  have r: "fst (environmentSecrets_Read ToUpper env componentName namespace secretNames w) =
             (Some secs, None)"
    by (simp add: environmentSecrets_Read_def f)
  have d: "dom secs = set secretNames"
    by (auto simp: secs split: if_splits)
  have v: "\<forall>key \<in> set secretNames.
          secs key =
            Some (Getenv env (map (\<lambda>c. if c = CHR ''-'' then CHR ''_'' else c) (ToUpper key)))
          \<and> (env (map (\<lambda>c. if c = CHR ''-'' then CHR ''_'' else c) (ToUpper key)) = None \<or>
             env (map (\<lambda>c. if c = CHR ''-'' then CHR ''_'' else c) (ToUpper key)) = Some []
             \<longrightarrow> secs key = Some [])"
    by (auto simp: secs Replace_dash Getenv_def)
  from r d v show ?thesis by blast
qed

theorem environment_Read_values_witness:
  "\<exists>secs. fst (environmentSecrets_Read toUpperASCII testEnviron ''x'' ''myNameSpace''
                 [''test-secret1'', ''other''] (start ())) = (Some secs, None)
     \<and> secs ''test-secret1'' = Some ''s3cr3t'' \<and> secs ''other'' = Some []"
proof -
  obtain secs where r: "fst (environmentSecrets_Read toUpperASCII testEnviron ''x''
                 ''myNameSpace'' [''test-secret1'', ''other''] (start ())) = (Some secs, None)"
    and v: "\<forall>key \<in> set [''test-secret1'', ''other''].
          secs key =
            Some (Getenv testEnviron
                    (map (\<lambda>c. if c = CHR ''-'' then CHR ''_'' else c) (toUpperASCII key)))"
    using environment_Read_values
      [of toUpperASCII testEnviron "''x''" "''myNameSpace''" "[''test-secret1'', ''other'']"
          "start ()"]
    by blast
  have "secs ''test-secret1'' = Some ''s3cr3t''"
    using v by (simp add: toUpperASCII_test_secret1 Getenv_def testEnviron_def)
  moreover have "secs ''other'' = Some []"
    using v by (simp add: toUpperASCII_other Getenv_def testEnviron_def)
  ultimately show ?thesis using r by blast
qed

subsection \<open>The reconciliation core\<close>

text \<open>
  C1. For every pair of component maps, \<^verbatim>\<open>diff(desired, current)\<close> returns
  \<open>(create, update, delete)\<close> such that, for every name: a name in \<open>desired\<close> and not
  in \<open>current\<close> is in \<open>create\<close> with its desired value, and only there; a name in
  \<open>current\<close> and not in \<open>desired\<close> is in \<open>delete\<close>, and only there; a name in both
  whose components differ in a field other than \<^verbatim>\<open>SecretValues\<close> is in \<open>update\<close>
  with the desired value, and only there; a name in both whose components agree on
  every field other than \<^verbatim>\<open>SecretValues\<close> is in none of the three, and so is a name
  in neither map.
\<close>

theorem diff_classifies:
  assumes "diff desired current = (create, update, delete)"
  shows "(desired name = Some d \<and> current name = None \<longrightarrow>
            create name = Some d \<and> update name = None \<and> delete name = None)
       \<and> (desired name = None \<and> current name = Some c \<longrightarrow>
            create name = None \<and> update name = None \<and> delete name = Some c)
       \<and> (desired name = Some d \<and> current name = Some c \<and>
            (Name d \<noteq> Name c \<or> Namespace d \<noteq> Namespace c \<or> Release d \<noteq> Release c \<or>
             Configuration d \<noteq> Configuration c \<or> Secrets d \<noteq> Secrets c) \<longrightarrow>
            create name = None \<and> update name = Some d \<and> delete name = None)
       \<and> (desired name = Some d \<and> current name = Some c \<and>
            Name d = Name c \<and> Namespace d = Namespace c \<and> Release d = Release c \<and>
            Configuration d = Configuration c \<and> Secrets d = Secrets c \<longrightarrow>
            create name = None \<and> update name = None \<and> delete name = None)
       \<and> (desired name = None \<and> current name = None \<longrightarrow>
            create name = None \<and> update name = None \<and> delete name = None)"
proof -
  have c: "create = desired |` (- dom current)"
    and d: "delete = current |` (- dom desired)"
    and u: "update = (\<lambda>name. case desired name of None \<Rightarrow> None
              | Some desiredCmp \<Rightarrow> (case current name of None \<Rightarrow> None
                  | Some currentCmp \<Rightarrow>
                      if Equals desiredCmp currentCmp then None else Some desiredCmp))"
    using assms by (simp_all add: diff_def Let_def)
  show ?thesis
    unfolding c d u by (auto simp: restrict_map_def Equals_iff)
qed

theorem diff_classifies_witness:
  "(case diff testDesired testCurrent of (create, update, delete) \<Rightarrow>
      create ''cmpD'' = Some (bareComponent ''cmpD'' None) \<and>
      update ''cmpD'' = None \<and> delete ''cmpD'' = None \<and>
      create ''cmpA'' = None \<and> update ''cmpA'' = None \<and>
      delete ''cmpA'' = Some (bareComponent ''cmpA'' None) \<and>
      create ''cmpB'' = None \<and>
      update ''cmpB'' = Some (bareComponent ''cmpB'' (chartOnly ''chart2'')) \<and>
      delete ''cmpB'' = None \<and>
      create ''cmpC'' = None \<and> update ''cmpC'' = None \<and> delete ''cmpC'' = None)"
proof -
  obtain create update delete where
    r: "diff testDesired testCurrent = (create, update, delete)"
    by (cases "diff testDesired testCurrent") auto
  have d: "create ''cmpD'' = Some (bareComponent ''cmpD'' None) \<and>
           update ''cmpD'' = None \<and> delete ''cmpD'' = None"
    using diff_classifies [OF r, of "''cmpD''" "bareComponent ''cmpD'' None" undefined]
    by (simp add: testDesired_def testCurrent_def)
  have a: "create ''cmpA'' = None \<and> update ''cmpA'' = None \<and>
           delete ''cmpA'' = Some (bareComponent ''cmpA'' None)"
    using diff_classifies [OF r, of "''cmpA''" undefined "bareComponent ''cmpA'' None"]
    by (simp add: testDesired_def testCurrent_def)
  have b: "create ''cmpB'' = None \<and>
           update ''cmpB'' = Some (bareComponent ''cmpB'' (chartOnly ''chart2'')) \<and>
           delete ''cmpB'' = None"
    using diff_classifies [OF r, of "''cmpB''" "bareComponent ''cmpB'' (chartOnly ''chart2'')"
        "bareComponent ''cmpB'' (chartOnly ''chart1'')"]
    by (simp add: testDesired_def testCurrent_def bareComponent_def chartOnly_def)
  have c: "create ''cmpC'' = None \<and> update ''cmpC'' = None \<and> delete ''cmpC'' = None"
    using diff_classifies [OF r, of "''cmpC''" "bareComponent ''cmpC'' None"
        "bareComponent ''cmpC'' None"]
    by (simp add: testDesired_def testCurrent_def)
  show ?thesis
    using d a b c by (simp add: r)
qed

text \<open>
  C2. For every input, \<^verbatim>\<open>integrateForcedUpdates\<close> treats a name of \<open>update\<close> that
  is flagged in \<^verbatim>\<open>needForcedUpdate\<close> as follows: the name is removed from
  \<open>update\<close>, the desired component (the one that was in \<open>update\<close>) is added to
  \<open>create\<close>, and the current component is added to \<open>delete\<close>. At every other name
  \<open>create\<close>, \<open>update\<close> and \<open>delete\<close> are unchanged.
\<close>

theorem integrateForcedUpdates_moves_flagged:
  assumes "integrateForcedUpdates current create update delete needForcedUpdate =
             (create', update', delete')"
  shows "(update name = Some d \<and> needForcedUpdate name \<longrightarrow>
            update' name = None \<and> create' name = Some d \<and>
            (\<forall>c. current name = Some c \<longrightarrow> delete' name = Some c))
       \<and> (\<not> (name \<in> dom update \<and> needForcedUpdate name) \<longrightarrow>
            create' name = create name \<and> update' name = update name \<and>
            delete' name = delete name)"
  using assms
  by (auto simp: integrateForcedUpdates_def Let_def restrict_map_def map_add_def
        split: option.splits)

theorem integrateForcedUpdates_moves_flagged_witness:
  "(case integrateForcedUpdates forcedCurrent forcedCreate forcedUpdate forcedDelete needF of
      (create', update', delete') \<Rightarrow>
        create' ''F'' = Some (newTestComponent ''F'') \<and> update' ''F'' = None \<and>
        delete' ''F'' = Some (newTestComponent ''F'') \<and>
        create' ''C'' = Some (newTestComponent ''C'') \<and> update' ''C'' = None \<and>
        delete' ''C'' = None \<and>
        create' ''U'' = None \<and> update' ''U'' = Some (newTestComponent ''U'') \<and>
        delete' ''U'' = None \<and>
        create' ''D'' = None \<and> update' ''D'' = None \<and>
        delete' ''D'' = Some (newTestComponent ''D''))"
proof -
  obtain create' update' delete' where
    r: "integrateForcedUpdates forcedCurrent forcedCreate forcedUpdate forcedDelete needF =
          (create', update', delete')"
    by (cases "integrateForcedUpdates forcedCurrent forcedCreate forcedUpdate forcedDelete needF")
       auto
  have f: "create' ''F'' = Some (newTestComponent ''F'') \<and> update' ''F'' = None \<and>
           delete' ''F'' = Some (newTestComponent ''F'')"
    using integrateForcedUpdates_moves_flagged [OF r, of "''F''" "newTestComponent ''F''"]
    by (simp add: forcedCurrent_def forcedUpdate_def needF_def)
  have c: "create' ''C'' = Some (newTestComponent ''C'') \<and> update' ''C'' = None \<and>
           delete' ''C'' = None"
    using integrateForcedUpdates_moves_flagged [OF r, of "''C''" undefined]
    by (simp add: forcedCreate_def forcedUpdate_def forcedDelete_def needF_def)
  have u: "create' ''U'' = None \<and> update' ''U'' = Some (newTestComponent ''U'') \<and>
           delete' ''U'' = None"
    using integrateForcedUpdates_moves_flagged [OF r, of "''U''" undefined]
    by (simp add: forcedCreate_def forcedUpdate_def forcedDelete_def needF_def)
  have d: "create' ''D'' = None \<and> update' ''D'' = None \<and>
           delete' ''D'' = Some (newTestComponent ''D'')"
    using integrateForcedUpdates_moves_flagged [OF r, of "''D''" undefined]
    by (simp add: forcedCreate_def forcedUpdate_def forcedDelete_def needF_def)
  show ?thesis
    using f c u d by (simp add: r)
qed

text \<open>
  C3. For every pair of components, \<^verbatim>\<open>isOnlySecretValueDiff(a, b)\<close> is true iff
  \<open>a\<close> and \<open>b\<close> are identical in every field except \<^verbatim>\<open>SecretValues\<close> and their
  secret values differ. In particular it is false on \<open>(a, a)\<close>, and false whenever a
  field other than \<^verbatim>\<open>SecretValues\<close> differs, whatever the secret values.
\<close>

theorem isOnlySecretValueDiff_iff:
  "(isOnlySecretValueDiff a b \<longleftrightarrow>
      Name a = Name b \<and> Namespace a = Namespace b \<and> Release a = Release b \<and>
      Configuration a = Configuration b \<and> Secrets a = Secrets b \<and>
      SecretValues a \<noteq> SecretValues b)
   \<and> \<not> isOnlySecretValueDiff a a
   \<and> (Name a \<noteq> Name b \<or> Namespace a \<noteq> Namespace b \<or> Release a \<noteq> Release b \<or>
      Configuration a \<noteq> Configuration b \<or> Secrets a \<noteq> Secrets b
      \<longrightarrow> \<not> isOnlySecretValueDiff a b)"
  by (auto simp: isOnlySecretValueDiff_def Equals_iff)

theorem isOnlySecretValueDiff_iff_witness:
  "\<not> isOnlySecretValueDiff (newTestComponent ''a'') (newTestComponent ''a'')
   \<and> \<not> isOnlySecretValueDiff (newTestComponent ''a'')
         ((newTestComponent ''a'')\<lparr>Name := Name (newTestComponent ''a'') @ ''X''\<rparr>)
   \<and> isOnlySecretValueDiff (newTestComponent ''a'')
       ((newTestComponent ''a'')
          \<lparr>SecretValues := (SecretValues (newTestComponent ''a''))(''x'' \<mapsto> ''y'')\<rparr>)"
proof -
  have ne: "SecretValues (newTestComponent ''a'') \<noteq>
            (SecretValues (newTestComponent ''a''))(''x'' \<mapsto> ''y'')"
    by (auto simp: newTestComponent_def dest: fun_cong [where x = "''x''"])
  show ?thesis
    using ne
      isOnlySecretValueDiff_iff [of "newTestComponent ''a''" "newTestComponent ''a''"]
      isOnlySecretValueDiff_iff [of "newTestComponent ''a''"
        "(newTestComponent ''a'')\<lparr>Name := Name (newTestComponent ''a'') @ ''X''\<rparr>"]
      isOnlySecretValueDiff_iff [of "newTestComponent ''a''"
        "(newTestComponent ''a'')
           \<lparr>SecretValues := (SecretValues (newTestComponent ''a''))(''x'' \<mapsto> ''y'')\<rparr>"]
    by simp
qed

text \<open>
  C4. For every component, when the chart loader answers without error,
  \<^verbatim>\<open>isCronJob\<close> returns true iff some template body of the loaded chart contains
  the marker text \<^verbatim>\<open>type: ScheduledJob\<close>, and false otherwise; when the loader
  answers an error, \<^verbatim>\<open>isCronJob\<close> returns that error unchanged.
\<close>

theorem isCronJob_marker:
  assumes "chartLoader e (chartRef cmp) = (chart, chartPath, err)"
  shows "(err = None \<longrightarrow>
           isCronJob chartRef e cmp =
             Inr (\<exists>t \<in> set (case chart of None \<Rightarrow> [] | Some ch \<Rightarrow> Templates ch).
                    \<exists>p q. template_Data t = p @ ''type: ScheduledJob'' @ q))
       \<and> (\<forall>x. err = Some x \<longrightarrow> isCronJob chartRef e cmp = Inl x)"
  using assms
  by (auto simp: isCronJob_def list_ex_iff Contains_iff scheduledJobMarker_def)

theorem isCronJob_marker_witness:
  "isCronJob repoRef (memory_executor (rigLoader ''no i am no cron'' None))
     (newTestComponent ''x'') = Inr False
   \<and> isCronJob repoRef (memory_executor (rigLoader ''type: ScheduledJob'' None))
       (newTestComponent ''x'') = Inr True
   \<and> isCronJob repoRef (memory_executor (rigLoader ''disaster'' (Some (errorString ''broken''))))
       (newTestComponent ''x'') = Inl (errorString ''broken'')"
proof -
  have l: "chartLoader (memory_executor (rigLoader body err)) (repoRef (newTestComponent ''x''))
        = (Some \<lparr>Templates = [\<lparr>template_Data = body\<rparr>]\<rparr>, [], err)" for body err
    by (simp add: memory_executor_def rigLoader_def)
  have n: "isCronJob repoRef (memory_executor (rigLoader ''no i am no cron'' None))
             (newTestComponent ''x'') = Inr False"
    using isCronJob_marker [of "memory_executor (rigLoader ''no i am no cron'' None)" repoRef
        "newTestComponent ''x''" "Some \<lparr>Templates = [\<lparr>template_Data = ''no i am no cron''\<rparr>]\<rparr>"
        "[]" None]
    unfolding Contains_iff [symmetric] by (simp add: l)
  have y: "isCronJob repoRef (memory_executor (rigLoader ''type: ScheduledJob'' None))
             (newTestComponent ''x'') = Inr True"
    using isCronJob_marker [of "memory_executor (rigLoader ''type: ScheduledJob'' None)" repoRef
        "newTestComponent ''x''" "Some \<lparr>Templates = [\<lparr>template_Data = ''type: ScheduledJob''\<rparr>]\<rparr>"
        "[]" None]
    unfolding Contains_iff [symmetric] by (simp add: l)
  have d: "isCronJob repoRef
             (memory_executor (rigLoader ''disaster'' (Some (errorString ''broken''))))
             (newTestComponent ''x'') = Inl (errorString ''broken'')"
    using isCronJob_marker [of "memory_executor (rigLoader ''disaster'' (Some (errorString ''broken'')))"
        repoRef "newTestComponent ''x''" "Some \<lparr>Templates = [\<lparr>template_Data = ''disaster''\<rparr>]\<rparr>"
        "[]" "Some (errorString ''broken'')"]
    by (simp add: l)
  show ?thesis
    using n y d by simp
qed

subsection \<open>Writing the secrets of an updated component\<close>

text \<open>
  C5. On every client that stores secrets as the Kubernetes API does, when the package
  of the component loads, \<^verbatim>\<open>UpdateComponent\<close> writes the component's
  \<^verbatim>\<open>SecretValues\<close> with success whatever the (name, namespace) pair held, in
  particular when it already holds prior values: the write that follows the deletion
  of the entry returns nil, the pair then holds the new values in place of the prior
  ones, and the requests to the secret store (the deletion, the creation of the
  namespace, the creation of the secret object) come before the release update, which
  is keyed by the component's name and carries the path the loader resolved (a dry run
  sends no release update).
\<close>

theorem UpdateComponent_overwrites_secrets:
  assumes "conforms cl view"
    and "secretsProvider e = NewKubeSecretsReadWriteDeleter cl"
    and "chartLoader e (chartRef cmp) = (chart, chartPath, None)"
  shows "fst (kubeSecretsProvider_Write cl (Name cmp) (Namespace cmp) (SecretValues cmp)
                (snd (kubeSecretsProvider_Delete cl (Name cmp) (Namespace cmp) w))) = None
       \<and> fst (UpdateComponent chartRef e cmp w) =
           (if dryRun e then None else updateRelease e (Name cmp) chartPath)
       \<and> stored_secrets (view (cluster (snd (UpdateComponent chartRef e cmp w))))
           (Namespace cmp, Name cmp) = Some (SecretValues cmp)
       \<and> requests (trace (snd (UpdateComponent chartRef e cmp w))) =
           requests (trace w) @
             [DeleteSecret (Namespace cmp) (Name cmp),
              CreateNamespace \<lparr>namespace_ObjectMeta = \<lparr>meta_Name = Namespace cmp\<rparr>\<rparr>,
              CreateSecret (Namespace cmp)
                \<lparr>secret_ObjectMeta = \<lparr>meta_Name = Name cmp\<rparr>, Data = SecretValues cmp\<rparr>] @
             (if dryRun e then [] else [UpdateRelease (Name cmp) chartPath])"
proof -
  let ?ns = "Namespace cmp" and ?nm = "Name cmp" and ?vals = "SecretValues cmp"
  let ?nsobj = "\<lparr>namespace_ObjectMeta = \<lparr>meta_Name = ?ns\<rparr>\<rparr>"
  let ?secret = "\<lparr>secret_ObjectMeta = \<lparr>meta_Name = ?nm\<rparr>, Data = ?vals\<rparr>"
  note c = assms(1)
  \<comment> \<open>the deletion\<close>
  obtain e1 s1 where D: "Secrets_Delete cl ?ns ?nm (cluster w) = (e1, s1)"
    by (cases "Secrets_Delete cl ?ns ?nm (cluster w)")
  have a1: "answer e1 = answer (fst (memory_Secrets_Delete ?ns ?nm (view (cluster w))))"
    and v1: "view s1 = snd (memory_Secrets_Delete ?ns ?nm (view (cluster w)))"
    using conforms_Delete [OF c, of ?ns ?nm "cluster w"] D by simp_all
  have "answer e1 = None \<or> answer e1 = Some StatusReasonNotFound"
    unfolding a1 by (simp add: memory_Secrets_Delete_def answer_def)
  then have "e1 = None \<or> IsNotFound e1"
    using answer_None [of e1] answer_NotFound [of e1] by auto
  then have d_ok: "(if IsNotFound e1 then None else e1) = None"
    by auto
  have free1: "stored_secrets (view s1) (?ns, ?nm) = None"
    unfolding v1 by (simp add: memory_Secrets_Delete_def)
  obtain dr wD where De: "kubeSecretsProvider_Delete cl ?nm ?ns w = (dr, wD)"
    by (cases "kubeSecretsProvider_Delete cl ?nm ?ns w")
  have dr: "dr = None"
    and cD: "cluster wD = s1"
    and rD: "requests (trace wD) = requests (trace w) @ [DeleteSecret ?ns ?nm]"
    using kube_Delete_eq [OF D] d_ok by (simp_all add: De)
  \<comment> \<open>the namespace\<close>
  obtain r1 s2 where N: "Namespaces_Create cl ?nsobj (cluster wD) = (r1, s2)"
    by (cases "Namespaces_Create cl ?nsobj (cluster wD)")
  have N': "Namespaces_Create cl ?nsobj s1 = (r1, s2)"
    using N cD by simp
  have a2: "answer (errorOf r1) =
              answer (errorOf (fst (memory_Namespaces_Create ?nsobj (view s1))))"
    and v2: "view s2 = snd (memory_Namespaces_Create ?nsobj (view s1))"
    using conforms_Namespace [OF c, of ?nsobj s1] N' by simp_all
  have "answer (errorOf r1) = None \<or> answer (errorOf r1) = Some StatusReasonAlreadyExists"
    unfolding a2 by (simp add: memory_Namespaces_Create_def answer_def errorOf_def Let_def)
  then have n_ok: "IsAlreadyExists (errorOf r1) \<or> errorOf r1 = None"
    using answer_None [of "errorOf r1"] answer_AlreadyExists [of "errorOf r1"] by auto
  have ns2: "?ns \<in> stored_namespaces (view s2)"
    and free2: "stored_secrets (view s2) (?ns, ?nm) = None"
    unfolding v2 using free1 by (simp_all add: memory_Namespaces_Create_def Let_def)
  \<comment> \<open>the secret object\<close>
  obtain r2 s3 where S: "Secrets_Create cl ?ns ?secret s2 = (r2, s3)"
    by (cases "Secrets_Create cl ?ns ?secret s2")
  have a3: "answer (errorOf r2) =
              answer (errorOf (fst (memory_Secrets_Create ?ns ?secret (view s2))))"
    and v3: "view s3 = snd (memory_Secrets_Create ?ns ?secret (view s2))"
    using conforms_Create [OF c, of ?ns ?secret s2] S by simp_all
  have "answer (errorOf r2) = None"
    unfolding a3 using ns2 free2
    by (simp add: memory_Secrets_Create_def answer_def errorOf_def Let_def)
  then have s_ok: "errorOf r2 = None"
    by (simp add: answer_None)
  have held: "stored_secrets (view s3) (?ns, ?nm) = Some ?vals"
    unfolding v3 using ns2 free2 by (simp add: memory_Secrets_Create_def Let_def)
  obtain wr wW where We: "kubeSecretsProvider_Write cl ?nm ?ns ?vals wD = (wr, wW)"
    by (cases "kubeSecretsProvider_Write cl ?nm ?ns ?vals wD")
  have wr: "wr = None"
    and cW: "cluster wW = s3"
    and rW: "requests (trace wW) =
               requests (trace w) @ [DeleteSecret ?ns ?nm, CreateNamespace ?nsobj,
                 CreateSecret ?ns ?secret]"
    using kube_Write_eq [OF N n_ok S] s_ok rD by (simp_all add: We)
  \<comment> \<open>the whole operation\<close>
  have U: "UpdateComponent chartRef e cmp w =
             (if dryRun e then (None, wW)
              else (updateRelease e ?nm chartPath,
                    wW\<lparr>trace := trace wW @ [Request (UpdateRelease ?nm chartPath)]\<rparr>))"
    by (simp add: UpdateComponent_def assms(2,3) NewKubeSecretsReadWriteDeleter_def
          De dr We wr)
  show ?thesis
    by (simp add: U De We wr rW cW held requests_append)
qed

theorem UpdateComponent_overwrites_secrets_witness:
  "conforms memory_client (\<lambda>s. s)
   \<and> stored_secrets (cluster (start cluster_with_y)) (''myNameSpace'', ''y'') =
       Some [''TestSecret1'' \<mapsto> ''old value'']
   \<and> fst (UpdateComponent repoRef (memory_executor pathLoader) (newTestComponent ''y'')
            (start cluster_with_y)) = None
   \<and> stored_secrets (cluster (snd (UpdateComponent repoRef (memory_executor pathLoader)
            (newTestComponent ''y'') (start cluster_with_y)))) (''myNameSpace'', ''y'') =
       Some [''TestSecret1'' \<mapsto> ''secret value 1'', ''TestSecret2'' \<mapsto> ''secret value 2'']
   \<and> requests (trace (snd (UpdateComponent repoRef (memory_executor pathLoader)
            (newTestComponent ''y'') (start cluster_with_y)))) =
       [DeleteSecret ''myNameSpace'' ''y'',
        CreateNamespace \<lparr>namespace_ObjectMeta = \<lparr>meta_Name = ''myNameSpace''\<rparr>\<rparr>,
        CreateSecret ''myNameSpace''
          \<lparr>secret_ObjectMeta = \<lparr>meta_Name = ''y''\<rparr>,
           Data = [''TestSecret1'' \<mapsto> ''secret value 1'',
                   ''TestSecret2'' \<mapsto> ''secret value 2'']\<rparr>,
        UpdateRelease ''y'' ''/opt/store/whatever/path/'']"
proof -
  have old: "stored_secrets (cluster (start cluster_with_y)) (''myNameSpace'', ''y'') =
               Some [''TestSecret1'' \<mapsto> ''old value'']"
    by (simp add: start_def cluster_with_y_def)
  have p: "secretsProvider (memory_executor pathLoader) =
             NewKubeSecretsReadWriteDeleter memory_client"
    by (simp add: memory_executor_def)
  have l: "chartLoader (memory_executor pathLoader) (repoRef (newTestComponent ''y'')) =
             (None, ''/opt/store/whatever/path/'', None)"
    by (simp add: memory_executor_def pathLoader_def)
  have d: "\<not> dryRun (memory_executor pathLoader)"
    and u: "updateRelease (memory_executor pathLoader) ''y'' ''/opt/store/whatever/path/'' = None"
    by (simp_all add: memory_executor_def)
  have nm: "Name (newTestComponent ''y'') = ''y''"
    and ns: "Namespace (newTestComponent ''y'') = ''myNameSpace''"
    and sv: "SecretValues (newTestComponent ''y'') =
               [''TestSecret1'' \<mapsto> ''secret value 1'', ''TestSecret2'' \<mapsto> ''secret value 2'']"
    by (simp_all add: newTestComponent_def)
  have tr: "requests (trace (start cluster_with_y)) = []"
    by (simp add: start_def)
  show ?thesis
    using UpdateComponent_overwrites_secrets
      [of memory_client "\<lambda>s. s" "memory_executor pathLoader" repoRef
          "newTestComponent ''y''" None "''/opt/store/whatever/path/''" "start cluster_with_y"]
      conforms_memory_client p l old d u
    by (simp add: nm ns sv tr)
qed

end
